theory Spec2Isabelle
  imports Main "HOL-Library.Word" "HOL-Library.Monad_Syntax"
begin

section \<open>The C types of main.c\<close>

type_synonym uint8_t = "8 word"
type_synonym uint16_t = "16 word"
type_synonym uint32_t = "32 word"
type_synonym int16_t = "16 word"  \<comment> \<open>read as two's complement by \<open>sint\<close>\<close>

section \<open>The emulator main.c is linked against\<close>

text \<open>
  main.c includes opl3.h and calls three functions of the Nuked OPL3 emulator. Neither
  the header nor the emulator is among the sources, so the three functions are
  parameters of the model. Each one is called as a statement, for its effect on the
  objects behind its pointer arguments: the chip and, for the generator, the four
  \<open>int16_t\<close> at \<open>buf4\<close>. A call that does not return is \<open>None\<close>.
\<close>

type_synonym buf4 = "int16_t \<times> int16_t \<times> int16_t \<times> int16_t"

record 'chip emulator =
  OPL3_Reset :: "'chip \<Rightarrow> uint32_t \<Rightarrow> 'chip option"
  OPL3_WriteRegBuffered :: "'chip \<Rightarrow> uint16_t \<Rightarrow> uint8_t \<Rightarrow> 'chip option"
  OPL3_Generate4ChResampled :: "'chip \<Rightarrow> ('chip \<times> buf4) option"

section \<open>The globals of main.c\<close>

text \<open>
  \<^verbatim>\<open>int16_t sample_buf[4];\<close> and \<^verbatim>\<open>opl3_chip chip;\<close>: the whole state of the
  module. Objects of static storage are zero-initialised; \<open>chip0\<close> stands for the
  zero-initialised \<open>opl3_chip\<close>.
\<close>

record 'chip globals =
  sample_buf :: "int16_t list"
  chip :: 'chip

definition initial_globals :: "'chip \<Rightarrow> 'chip globals" where
  "initial_globals chip0 = \<lparr>sample_buf = [0, 0, 0, 0], chip = chip0\<rparr>"

text \<open>
  A pointer to \<open>int16_t\<close>. The only \<open>int16_t\<close> objects of the program are the elements
  of \<open>sample_buf\<close>, so such a pointer is \<open>&sample_buf[i]\<close>. A load or a store outside the
  array has no defined behaviour: \<open>None\<close>.
\<close>

datatype int16_ptr = Sample_buf_elem nat

fun ptr_add :: "int16_ptr \<Rightarrow> nat \<Rightarrow> int16_ptr" where
  "ptr_add (Sample_buf_elem i) n = Sample_buf_elem (i + n)"

fun load_int16 :: "int16_ptr \<Rightarrow> 'chip globals \<Rightarrow> int16_t option" where
  "load_int16 (Sample_buf_elem i) s =
     (if i < length (sample_buf s) then Some (sample_buf s ! i) else None)"

fun store_int16 :: "int16_ptr \<Rightarrow> int16_t \<Rightarrow> 'chip globals \<Rightarrow> 'chip globals option" where
  "store_int16 (Sample_buf_elem i) v s =
     (if i < length (sample_buf s) then Some (s\<lparr>sample_buf := (sample_buf s)[i := v]\<rparr>)
      else None)"

text \<open>What a callee does with \<open>buf4\<close>: it stores \<open>buf4[0]\<close> to \<open>buf4[3]\<close>.\<close>

fun store_buf4 :: "int16_ptr \<Rightarrow> buf4 \<Rightarrow> 'chip globals \<Rightarrow> 'chip globals option" where
  "store_buf4 p (x0, x1, x2, x3) s = do {
     s0 \<leftarrow> store_int16 p x0 s;
     s1 \<leftarrow> store_int16 (ptr_add p 1) x1 s0;
     s2 \<leftarrow> store_int16 (ptr_add p 2) x2 s1;
     store_int16 (ptr_add p 3) x3 s2
   }"

text \<open>What the host does with the pointer it holds: it reads four samples there.\<close>

definition load_buf4 :: "int16_ptr \<Rightarrow> 'chip globals \<Rightarrow> buf4 option" where
  "load_buf4 p s = do {
     x0 \<leftarrow> load_int16 p s;
     x1 \<leftarrow> load_int16 (ptr_add p 1) s;
     x2 \<leftarrow> load_int16 (ptr_add p 2) s;
     x3 \<leftarrow> load_int16 (ptr_add p 3) s;
     Some (x0, x1, x2, x3)
   }"

section \<open>The four entry points of main.c\<close>

text \<open>
  Every entry point takes the emulator, its C arguments and the globals, and gives its
  C return value (\<open>()\<close> for \<open>void\<close>) with the globals it leaves.
\<close>

definition opl3_reset ::
  "'chip emulator \<Rightarrow> uint32_t \<Rightarrow> 'chip globals \<Rightarrow> (unit \<times> 'chip globals) option" where
  "opl3_reset E samplerate s = do {
     c \<leftarrow> OPL3_Reset E (chip s) samplerate;
     Some ((), s\<lparr>chip := c\<rparr>)
   }"

definition opl3_write ::
  "'chip emulator \<Rightarrow> uint16_t \<Rightarrow> uint8_t \<Rightarrow> 'chip globals \<Rightarrow> (unit \<times> 'chip globals) option" where
  "opl3_write E reg data s = do {
     c \<leftarrow> OPL3_WriteRegBuffered E (chip s) reg data;
     Some ((), s\<lparr>chip := c\<rparr>)
   }"

definition opl3_render ::
  "'chip emulator \<Rightarrow> 'chip globals \<Rightarrow> (unit \<times> 'chip globals) option" where
  "opl3_render E s = do {
     (c, frame) \<leftarrow> OPL3_Generate4ChResampled E (chip s);
     s' \<leftarrow> store_buf4 (Sample_buf_elem 0) frame (s\<lparr>chip := c\<rparr>);
     Some ((), s')
   }"

definition opl3_buf_ptr :: "'chip globals \<Rightarrow> (int16_ptr \<times> 'chip globals) option" where
  "opl3_buf_ptr s = Some (Sample_buf_elem 0, s)"

section \<open>Sequences of calls\<close>

text \<open>
  The module is driven by a host that calls the exported functions one after the other.
  After a render the host reads the frame through the pointer \<open>opl3_buf_ptr\<close> gives.
\<close>

datatype call =
  Call_reset uint32_t
  | Call_write uint16_t uint8_t
  | Call_render
  | Call_buf_ptr

datatype retval = Void | Pointer int16_ptr

fun entry :: "'chip emulator \<Rightarrow> call \<Rightarrow> 'chip globals \<Rightarrow> (retval \<times> 'chip globals) option" where
  "entry E (Call_reset samplerate) s = map_option (\<lambda>(_, s'). (Void, s')) (opl3_reset E samplerate s)"
| "entry E (Call_write reg data) s = map_option (\<lambda>(_, s'). (Void, s')) (opl3_write E reg data s)"
| "entry E Call_render s = map_option (\<lambda>(_, s'). (Void, s')) (opl3_render E s)"
| "entry E Call_buf_ptr s = map_option (\<lambda>(p, s'). (Pointer p, s')) (opl3_buf_ptr s)"

fun run :: "'chip emulator \<Rightarrow> call list \<Rightarrow> 'chip globals \<Rightarrow> 'chip globals option" where
  "run E [] s = Some s"
| "run E (c # cs) s = do { (_, s') \<leftarrow> entry E c s; run E cs s' }"

definition read_frame :: "'chip globals \<Rightarrow> buf4 option" where
  "read_frame s = do { (p, s') \<leftarrow> opl3_buf_ptr s; load_buf4 p s' }"

text \<open>The frames the host reads, one after each render of a sequence of calls.\<close>

fun frames :: "'chip emulator \<Rightarrow> call list \<Rightarrow> 'chip globals \<Rightarrow> buf4 list option" where
  "frames E [] s = Some []"
| "frames E (c # cs) s = do {
     (_, s') \<leftarrow> entry E c s;
     fs \<leftarrow> frames E cs s';
     (case c of
        Call_render \<Rightarrow> do { f \<leftarrow> read_frame s'; Some (f # fs) }
      | _ \<Rightarrow> Some fs)
   }"

section \<open>A recording emulator\<close>

text \<open>
  An emulator whose chip is the list of the calls it has received since the last reset,
  and whose frame counts them. It shows, on concrete inputs, what the entry points hand
  to the emulator and what they give back.
\<close>

datatype received =
  Got_reset uint32_t
  | Got_write uint16_t uint8_t
  | Got_generate

definition recorder :: "received list emulator" where
  "recorder = \<lparr>
     OPL3_Reset = (\<lambda>c samplerate. Some [Got_reset samplerate]),
     OPL3_WriteRegBuffered = (\<lambda>c reg v. Some (c @ [Got_write reg v])),
     OPL3_Generate4ChResampled = (\<lambda>c.
       Some (c @ [Got_generate],
         (of_nat (length c), of_nat (length c) + 1, of_nat (length c) + 2, of_nat (length c) + 3)))
   \<rparr>"

section \<open>The entry points as forwarders\<close>

text \<open>
  What it means that an entry point only forwards: \<open>on_chip f\<close> applies \<open>f\<close> to the one
  global chip and touches nothing else; \<open>into_sample_buf g\<close> applies \<open>g\<close> to the global
  chip and leaves the four samples \<open>g\<close> produced in \<open>sample_buf\<close>.
\<close>

fun buf4_list :: "buf4 \<Rightarrow> int16_t list" where
  "buf4_list (x0, x1, x2, x3) = [x0, x1, x2, x3]"

definition on_chip ::
  "('chip \<Rightarrow> 'chip option) \<Rightarrow> 'chip globals \<Rightarrow> (unit \<times> 'chip globals) option" where
  "on_chip f s = map_option (\<lambda>c. ((), s\<lparr>chip := c\<rparr>)) (f (chip s))"

definition into_sample_buf ::
  "('chip \<Rightarrow> ('chip \<times> buf4) option) \<Rightarrow> 'chip globals \<Rightarrow> (unit \<times> 'chip globals) option" where
  "into_sample_buf g s =
     map_option (\<lambda>(c, f). ((), \<lparr>sample_buf = buf4_list f, chip = c\<rparr>)) (g (chip s))"

section \<open>Several users of the module\<close>

text \<open>
  No entry point takes a chip argument. When two users drive the module, their calls
  reach the same entry points in the order they are made: \<open>map snd\<close> of the tagged
  calls. \<open>calls_of u\<close> keeps the calls user \<open>u\<close> made.
\<close>

datatype user = User_a | User_b

definition calls_of :: "user \<Rightarrow> (user \<times> call) list \<Rightarrow> call list" where
  "calls_of u tcs = map snd (filter (\<lambda>(w, _). w = u) tcs)"

section \<open>The register file of the core\<close>

text \<open>
  Modelled from the spec: the state of the emulator core that a register write acts on
  (the emulator's sources, opl3.c and opl3.h, are missing). Spec 3: a register is an
  address in the range 0 to 0x1FF mapped to an 8-bit value; operators and channels have
  parameter fields (frequency number, multiplier, waveform, key-on and others).
\<close>

record ('f, 'v) core =
  core_regs :: "uint16_t \<Rightarrow> uint8_t"
  core_fields :: "'f \<Rightarrow> 'v"

text \<open>
  Modelled from the spec: "updates the corresponding operator or channel field" (spec
  4.1), for the fields one register byte holds; \<open>OPL3_WriteReg\<close>'s decoding is missing.
  Each field named is set to the value given with it, in order.
\<close>

fun assign :: "('f \<times> 'v) list \<Rightarrow> ('f \<Rightarrow> 'v) \<Rightarrow> ('f \<Rightarrow> 'v)" where
  "assign [] m = m"
| "assign ((k, x) # kxs) m = assign kxs (m(k := x))"

text \<open>
  Modelled from the spec: the register write of the core, which stands for the missing
  \<open>OPL3_WriteRegBuffered\<close>. Spec 4.1: \<open>write(address, value)\<close> stores the byte and, if
  the address maps to a known parameter, immediately updates the corresponding operator
  or channel field; unknown addresses are silently ignored. Spec 3: unmapped addresses
  are ignored, not errors. The register map is a published standard the spec does not
  reproduce, so it is the parameter \<open>regmap\<close>: \<open>None\<close> at an address that maps to
  nothing, else the fields a byte written there sets and the values it sets them to.
\<close>

definition core_write ::
  "(uint16_t \<Rightarrow> (uint8_t \<Rightarrow> ('f \<times> 'v) list) option) \<Rightarrow>
   ('f, 'v) core \<Rightarrow> uint16_t \<Rightarrow> uint8_t \<Rightarrow> ('f, 'v) core" where
  "core_write regmap c address v =
     (if address \<le> 0x1FF then
        (case regmap address of
           None \<Rightarrow> c
         | Some decode \<Rightarrow>
             c\<lparr>core_regs := (core_regs c)(address := v),
               core_fields := assign (decode v) (core_fields c)\<rparr>)
      else c)"

text \<open>
  Modelled from the spec: an emulator whose register write is \<open>core_write\<close>, in place
  of the missing one. A register write always returns (spec 7: it has no error). The
  spec does not fix what reset and render compute, so they stay parameters.
\<close>

definition core_emulator ::
  "(uint16_t \<Rightarrow> (uint8_t \<Rightarrow> ('f \<times> 'v) list) option) \<Rightarrow>
   (('f, 'v) core \<Rightarrow> uint32_t \<Rightarrow> ('f, 'v) core option) \<Rightarrow>
   (('f, 'v) core \<Rightarrow> (('f, 'v) core \<times> buf4) option) \<Rightarrow> ('f, 'v) core emulator" where
  "core_emulator regmap reset generate = \<lparr>
     OPL3_Reset = reset,
     OPL3_WriteRegBuffered = (\<lambda>c address v. Some (core_write regmap c address v)),
     OPL3_Generate4ChResampled = generate
   \<rparr>"

section \<open>The reset of the core\<close>



section \<open>Basic facts\<close>

lemma length4_cases:
  assumes "length xs = 4"
  obtains a b c d where "xs = [a, b, c, d]"
proof -
  from assms obtain a ys where 1: "xs = a # ys" and "length ys = 3"
    by (cases xs) auto
  then obtain b zs where 2: "ys = b # zs" and "length zs = 2"
    by (cases ys) auto
  then obtain c ws where 3: "zs = c # ws" and "length ws = 1"
    by (cases zs) auto
  then obtain d where 4: "ws = [d]"
    by (cases ws) auto
  from 1 2 3 4 that show thesis by simp
qed

lemma store_buf4_sample_buf:
  assumes "length (sample_buf s) = 4"
  shows "store_buf4 (Sample_buf_elem 0) (x0, x1, x2, x3) s =
         Some (s\<lparr>sample_buf := [x0, x1, x2, x3]\<rparr>)"
proof -
  from assms obtain a b c d where "sample_buf s = [a, b, c, d]"
    by (rule length4_cases)
  then show ?thesis by simp
qed

lemma load_buf4_sample_buf:
  "sample_buf s = [x0, x1, x2, x3] \<Longrightarrow> load_buf4 (Sample_buf_elem 0) s = Some (x0, x1, x2, x3)"
  by (simp add: load_buf4_def)

lemma opl3_reset_on_chip: "opl3_reset E r s = on_chip (\<lambda>c. OPL3_Reset E c r) s"
  by (cases "OPL3_Reset E (chip s) r") (simp_all add: opl3_reset_def on_chip_def)

lemma opl3_write_on_chip: "opl3_write E reg v s = on_chip (\<lambda>c. OPL3_WriteRegBuffered E c reg v) s"
  by (cases "OPL3_WriteRegBuffered E (chip s) reg v") (simp_all add: opl3_write_def on_chip_def)

lemma opl3_render_into_sample_buf:
  assumes "length (sample_buf s) = 4"
  shows "opl3_render E s = into_sample_buf (OPL3_Generate4ChResampled E) s"
proof (cases "OPL3_Generate4ChResampled E (chip s)")
  case None
  then show ?thesis by (simp add: opl3_render_def into_sample_buf_def)
next
  case (Some cf)
  obtain c x0 x1 x2 x3 where cf: "cf = (c, x0, x1, x2, x3)"
    by (cases cf) auto
  from assms have "length (sample_buf (s\<lparr>chip := c\<rparr>)) = 4" by simp
  then have "store_buf4 (Sample_buf_elem 0) (x0, x1, x2, x3) (s\<lparr>chip := c\<rparr>) =
             Some (s\<lparr>chip := c, sample_buf := [x0, x1, x2, x3]\<rparr>)"
    by (rule store_buf4_sample_buf)
  with Some cf show ?thesis
    by (simp add: opl3_render_def into_sample_buf_def)
qed

lemma on_chip_length:
  "on_chip f s = Some (u, s') \<Longrightarrow> length (sample_buf s') = length (sample_buf s)"
  by (auto simp: on_chip_def)

lemma into_sample_buf_length:
  "into_sample_buf g s = Some (u, s') \<Longrightarrow> length (sample_buf s') = 4"
  by (auto simp: into_sample_buf_def)

lemma entry_length:
  assumes "length (sample_buf s) = 4" and "entry E c s = Some (r, s')"
  shows "length (sample_buf s') = 4"
proof (cases c)
  case (Call_reset samplerate)
  with assms show ?thesis
    by (auto simp: opl3_reset_on_chip dest: on_chip_length)
next
  case (Call_write reg v)
  with assms show ?thesis
    by (auto simp: opl3_write_on_chip dest: on_chip_length)
next
  case Call_render
  with assms show ?thesis
    by (auto simp: opl3_render_into_sample_buf dest: into_sample_buf_length)
next
  case Call_buf_ptr
  with assms show ?thesis
    by (auto simp: opl3_buf_ptr_def)
qed

lemma run_length:
  "length (sample_buf s) = 4 \<Longrightarrow> run E cs s = Some s' \<Longrightarrow> length (sample_buf s') = 4"
proof (induction cs arbitrary: s)
  case Nil
  then show ?case by simp
next
  case (Cons c cs)
  from Cons.prems(2) obtain r s1 where 1: "entry E c s = Some (r, s1)" and 2: "run E cs s1 = Some s'"
    by (auto split: bind_splits)
  from Cons.prems(1) 1 have 3: "length (sample_buf s1) = 4" by (rule entry_length)
  from 3 2 show ?case by (rule Cons.IH)
qed

lemma run_append: "run E (xs @ ys) s = run E xs s \<bind> run E ys"
proof (induction xs arbitrary: s)
  case Nil
  show ?case by simp
next
  case (Cons c xs)
  show ?case
  proof (cases "entry E c s")
    case None
    then show ?thesis by simp
  next
    case (Some rs)
    then show ?thesis by (cases rs) (simp add: Cons.IH)
  qed
qed

lemma read_frame_into_sample_buf:
  "into_sample_buf g s = Some (u, s') \<Longrightarrow> map_option snd (g (chip s)) = read_frame s'"
  by (cases "g (chip s)")
     (auto simp: into_sample_buf_def read_frame_def opl3_buf_ptr_def load_buf4_sample_buf)





lemma read_frame_buf4_list: "read_frame \<lparr>sample_buf = buf4_list f, chip = c\<rparr> = Some f"
  by (cases f) (simp add: read_frame_def opl3_buf_ptr_def load_buf4_def)


lemma load_buf4_length:
  assumes "length (sample_buf s) = 4"
  shows "load_buf4 (Sample_buf_elem 0) s \<noteq> None"
proof -
  from assms obtain a b c d where "sample_buf s = [a, b, c, d]"
    by (rule length4_cases)
  then show ?thesis by (simp add: load_buf4_sample_buf)
qed

lemma assign_apply:
  "assign kxs m k = (case map_of (rev kxs) k of None \<Rightarrow> m k | Some x \<Rightarrow> x)"
proof (induction kxs arbitrary: m)
  case Nil
  show ?case by simp
next
  case (Cons kx kxs)
  obtain k' x where kx: "kx = (k', x)" by (cases kx)
  show ?case
    by (simp add: kx Cons.IH map_add_def split: option.split)
qed

lemma assign_idem: "assign kxs (assign kxs m) = assign kxs m"
  by (rule ext) (simp add: assign_apply split: option.split)

lemma core_write_idem:
  "core_write regmap (core_write regmap c address v) address v = core_write regmap c address v"
  by (simp add: core_write_def assign_idem split: option.split)

section \<open>The entry points and the emulator\<close>

text \<open>
  C9. Each entry point only forwards to the emulator, on the single global chip:
  \<open>opl3_reset(r)\<close> is \<open>OPL3_Reset(&chip, r)\<close>, \<open>opl3_write(reg, data)\<close> is
  \<open>OPL3_WriteRegBuffered(&chip, reg, data)\<close> with the 16-bit \<open>reg\<close> and the 8-bit
  \<open>data\<close> handed on as they are, neither masked nor checked, and \<open>opl3_render()\<close> is
  \<open>OPL3_Generate4ChResampled(&chip, sample_buf)\<close>.
\<close>

theorem entry_points_forward:
  assumes "length (sample_buf s) = 4"
  shows "opl3_reset E r s = on_chip (\<lambda>c. OPL3_Reset E c r) s
       \<and> opl3_write E reg v s = on_chip (\<lambda>c. OPL3_WriteRegBuffered E c reg v) s
       \<and> opl3_render E s = into_sample_buf (OPL3_Generate4ChResampled E) s"
  using assms
  by (simp add: opl3_reset_on_chip opl3_write_on_chip opl3_render_into_sample_buf)

theorem entry_points_forward_witness:
  "length (sample_buf (initial_globals [Got_reset 49716])) = 4
   \<and> opl3_reset recorder 0 (initial_globals [Got_reset 49716]) =
       Some ((), \<lparr>sample_buf = [0, 0, 0, 0], chip = [Got_reset 0]\<rparr>)
   \<and> opl3_write recorder 0xFFFF 0xFF (initial_globals [Got_reset 49716]) =
       Some ((), \<lparr>sample_buf = [0, 0, 0, 0], chip = [Got_reset 49716, Got_write 0xFFFF 0xFF]\<rparr>)
   \<and> opl3_render recorder (initial_globals [Got_reset 49716]) =
       Some ((), \<lparr>sample_buf = [1, 2, 3, 4], chip = [Got_reset 49716, Got_generate]\<rparr>)"
proof -
  have len: "length (sample_buf (initial_globals [Got_reset 49716])) = 4"
    by (simp add: initial_globals_def)
  show ?thesis
    using len entry_points_forward [OF len, of recorder 0 "0xFFFF" "0xFF"]
    by (simp add: on_chip_def into_sample_buf_def recorder_def initial_globals_def)
qed

section \<open>The buffer pointer\<close>

text \<open>
  C10. \<open>opl3_buf_ptr\<close> changes no state and always returns the same pointer, the
  address of \<open>sample_buf\<close>: before and after any sequence of reset, write, render and
  buf_ptr calls it is \<open>&sample_buf[0]\<close>, four samples can be read there, and they are
  the ones the generator produced in the last \<open>opl3_render\<close>.
\<close>

theorem opl3_buf_ptr_constant:
  assumes "length (sample_buf s) = 4" and "run E cs s = Some s'"
  shows "opl3_buf_ptr s = Some (Sample_buf_elem 0, s)
       \<and> opl3_buf_ptr s' = Some (Sample_buf_elem 0, s')
       \<and> load_buf4 (Sample_buf_elem 0) s' \<noteq> None
       \<and> (case opl3_render E s' of
            None \<Rightarrow> True
          | Some (u, s'') \<Rightarrow>
              load_buf4 (Sample_buf_elem 0) s'' =
                map_option snd (OPL3_Generate4ChResampled E (chip s')))"
proof -
  from assms have len: "length (sample_buf s') = 4"
    by (rule run_length)
  then have valid: "load_buf4 (Sample_buf_elem 0) s' \<noteq> None"
    by (rule load_buf4_length)
  have written: "load_buf4 (Sample_buf_elem 0) s'' =
                   map_option snd (OPL3_Generate4ChResampled E (chip s'))"
    if "opl3_render E s' = Some (u, s'')" for u s''
  proof -
    from that len have "into_sample_buf (OPL3_Generate4ChResampled E) s' = Some (u, s'')"
      by (simp add: opl3_render_into_sample_buf)
    then have "map_option snd (OPL3_Generate4ChResampled E (chip s')) = read_frame s''"
      by (rule read_frame_into_sample_buf)
    then show ?thesis
      by (simp add: read_frame_def opl3_buf_ptr_def)
  qed
  from valid written show ?thesis
    by (auto simp: opl3_buf_ptr_def split: option.split)
qed

theorem opl3_buf_ptr_constant_witness:
  "length (sample_buf (initial_globals ([] :: received list))) = 4
   \<and> run recorder [Call_reset 49716, Call_write 0xB0 0x20, Call_render] (initial_globals []) =
       Some \<lparr>sample_buf = [2, 3, 4, 5], chip = [Got_reset 49716, Got_write 0xB0 0x20, Got_generate]\<rparr>
   \<and> opl3_buf_ptr (initial_globals ([] :: received list)) =
       Some (Sample_buf_elem 0, initial_globals [])
   \<and> opl3_buf_ptr \<lparr>sample_buf = [2, 3, 4, 5], chip = [Got_reset 49716, Got_write 0xB0 0x20, Got_generate]\<rparr> =
       Some (Sample_buf_elem 0,
         \<lparr>sample_buf = [2, 3, 4, 5], chip = [Got_reset 49716, Got_write 0xB0 0x20, Got_generate]\<rparr>)
   \<and> load_buf4 (Sample_buf_elem 0)
        \<lparr>sample_buf = [2, 3, 4, 5], chip = [Got_reset 49716, Got_write 0xB0 0x20, Got_generate]\<rparr> \<noteq> None"
proof -
  have 1: "length (sample_buf (initial_globals ([] :: received list))) = 4"
    by (simp add: initial_globals_def)
  have 2: "run recorder [Call_reset 49716, Call_write 0xB0 0x20, Call_render] (initial_globals []) =
       Some \<lparr>sample_buf = [2, 3, 4, 5], chip = [Got_reset 49716, Got_write 0xB0 0x20, Got_generate]\<rparr>"
    by (simp add: recorder_def initial_globals_def opl3_reset_def opl3_write_def opl3_render_def)
  from opl3_buf_ptr_constant [OF 1 2] 1 2 show ?thesis
    by simp
qed

section \<open>One chip for all callers\<close>

text \<open>
  C2, as the code has it. The module has one chip, the global \<open>chip\<close>, and every entry
  point acts on it. The calls of all callers therefore act on the same chip in the
  order they are made: calls that follow others start from the globals those left, and
  a write, whoever made it, changes the chip the next render generates from.
\<close>

theorem callers_share_the_chip:
  "run E (xs @ ys) s = run E xs s \<bind> run E ys
   \<and> (opl3_write E reg v s \<bind> (\<lambda>(u, s'). opl3_render E s')) =
     (OPL3_WriteRegBuffered E (chip s) reg v \<bind> (\<lambda>c. opl3_render E (s\<lparr>chip := c\<rparr>)))"
  by (cases "OPL3_WriteRegBuffered E (chip s) reg v") (simp_all add: run_append opl3_write_def)

text \<open>
  C2 as the spec states it fails: user a resets and renders and would read the frame
  (1, 2, 3, 4); with one write of user b in between, user a reads (2, 3, 4, 5).
\<close>

theorem second_user_counterexample:
  "calls_of User_a [(User_a, Call_reset 49716), (User_b, Call_write 0xB0 0x20), (User_a, Call_render)] =
     [Call_reset 49716, Call_render]
   \<and> frames recorder
       (calls_of User_a [(User_a, Call_reset 49716), (User_b, Call_write 0xB0 0x20), (User_a, Call_render)])
       (initial_globals []) = Some [(1, 2, 3, 4)]
   \<and> frames recorder
       (map snd [(User_a, Call_reset 49716), (User_b, Call_write 0xB0 0x20), (User_a, Call_render)])
       (initial_globals []) = Some [(2, 3, 4, 5)]"
  by (simp add: calls_of_def recorder_def initial_globals_def opl3_reset_def opl3_write_def
      opl3_render_def read_frame_def opl3_buf_ptr_def load_buf4_def)

section \<open>Register writes on the core of the spec\<close>

text \<open>
  C6. Register writes are idempotent: writing the same value to the same address twice
  in succession leaves the same state as writing it once. Proved for \<open>opl3_write\<close> over
  an emulator whose register write is the one the spec describes.
\<close>

theorem core_write_twice:
  "(opl3_write (core_emulator regmap reset generate) address v s \<bind>
      (\<lambda>(u, s'). opl3_write (core_emulator regmap reset generate) address v s')) =
   opl3_write (core_emulator regmap reset generate) address v s"
  by (simp add: opl3_write_def core_emulator_def core_write_idem)

text \<open>
  C7. A write to an address outside the defined range 0 to 0x1FF, or to one that maps to
  no parameter, is a silent no-op: \<open>opl3_write\<close> returns and leaves the chip and
  \<open>sample_buf\<close> as they were. Proved for \<open>opl3_write\<close> over an emulator whose register
  write is the one the spec describes; \<open>opl3_write\<close> itself hands every 16-bit address
  on unchecked.
\<close>

theorem core_write_unmapped:
  assumes "\<not> (address \<le> 0x1FF \<and> regmap address \<noteq> None)"
  shows "opl3_write (core_emulator regmap reset generate) address v s = Some ((), s)"
  using assms by (auto simp: opl3_write_def core_emulator_def core_write_def)

theorem core_write_unmapped_witness:
  "\<not> ((0x200 :: uint16_t) \<le> 0x1FF
       \<and> (\<lambda>a :: uint16_t. if a = 0xB0 then Some (\<lambda>v :: uint8_t. [(a, v)]) else None) 0x200 \<noteq> None)
   \<and> opl3_write
        (core_emulator (\<lambda>a. if a = 0xB0 then Some (\<lambda>v. [(a, v)]) else None)
           (\<lambda>c r. Some c) (\<lambda>c. None))
        0x200 0x55 (initial_globals \<lparr>core_regs = (\<lambda>a. 0), core_fields = (\<lambda>a. 0)\<rparr>) =
      Some ((), initial_globals \<lparr>core_regs = (\<lambda>a. 0), core_fields = (\<lambda>a. 0)\<rparr>)"
  using core_write_unmapped
    [where address = "0x200"
       and regmap = "\<lambda>a :: uint16_t. if a = 0xB0 then Some (\<lambda>v :: uint8_t. [(a, v)]) else None"
       and reset = "\<lambda>c r. Some c" and generate = "\<lambda>c. None" and v = "0x55"
       and s = "initial_globals \<lparr>core_regs = (\<lambda>a. 0), core_fields = (\<lambda>a. 0)\<rparr>"]
  by simp

section \<open>Determinism\<close>



end
